theory Spec2Isabelle
  imports Main
begin

section \<open>The shell operation runner factory of rush-lib\<close>

text \<open>
  A shallow embedding of
  \<^verbatim>\<open>apps/rush-lib/src/logic/operations/ShellOperationRunnerFactory.ts\<close>.
  The class \<^verbatim>\<open>ShellOperationRunnerFactory\<close> decides, for a phase and a project,
  which command the operation runs, and builds a shell runner or a no-op runner.

  JavaScript strings are modelled as \<open>string\<close> (a list of code units), objects that
  the factory only passes around as references (\<open>nat\<close>), the \<^verbatim>\<open>Map\<close> keyed by phase
  objects as a map from the identity of the phase, a thrown \<^verbatim>\<open>Error\<close> as the left
  summand of the result, and the mutation of the factory as explicit state passing.
\<close>

subsection \<open>Data model\<close>

type_synonym ref = nat

text \<open>
  A phase (\<^verbatim>\<open>IPhase\<close>). The field \<open>phase_id\<close> is the identity of the JavaScript
  object: \<^verbatim>\<open>Map<IPhase, string[]>\<close> compares its keys by identity, not by content.
  \<open>associatedParameters\<close> is a \<^verbatim>\<open>Set\<close> of parameter objects, again compared by
  identity.
\<close>

record IPhase =
  phase_id :: ref
  name :: string
  isSynthetic :: bool
  ignoreMissingScript :: bool
  associatedParameters :: "ref set"

text \<open>
  A value that \<^verbatim>\<open>scripts?.[commandToRun]\<close> can read from the script table of
  \<^verbatim>\<open>package.json\<close>: \<^verbatim>\<open>undefined\<close>, \<^verbatim>\<open>null\<close>, a string, or an object or function
  (what a plain object inherits from \<^verbatim>\<open>Object.prototype\<close>), which is given by the
  string that a template literal makes of it.
\<close>

datatype rawCommand = Undefined | Null | Str string | ObjectValue string

record IPackageJson =
  scripts :: "(string \<rightharpoonup> rawCommand) option"

record RushConfigurationProject =
  packageName :: string
  packageJson :: IPackageJson

text \<open>
  \<^verbatim>\<open>CommandLineParameter.appendToArgList(argList)\<close> belongs to ts-command-line and is
  abstract there: it pushes the rendered tokens of the parameter onto the array it is
  given. It is taken as a parameter of the model, a function from the array before the
  call to the array after it.
\<close>

record CommandLineParameter =
  appendToArgList :: "string list \<Rightarrow> string list"

record IRegisteredCustomParameter =
  parameter :: ref
  tsCommandLineParameter :: CommandLineParameter

text \<open>
  The fields that \<^verbatim>\<open>IShellOperationRunnerFactoryOptions\<close> and the options of
  \<^verbatim>\<open>ShellOperationRunner\<close> have in common; \<open>buildCacheConfiguration\<close> may be
  \<^verbatim>\<open>undefined\<close>.
\<close>

record sharedOptions =
  rushConfiguration :: ref
  buildCacheConfiguration :: "ref option"
  commandLineConfiguration :: ref
  isIncrementalBuildAllowed :: bool
  projectChangeAnalyzer :: ref

record IShellOperationRunnerFactoryOptions = sharedOptions +
  customParameters :: "IRegisteredCustomParameter list"

record IShellOperationRunnerOptions = sharedOptions +
  rushProject :: RushConfigurationProject
  displayName :: string
  commandToRun :: string
  phase :: IPhase

text \<open>
  Modelled from the spec: \<^verbatim>\<open>OperationStatus\<close> is declared in
  \<^verbatim>\<open>OperationStatus.ts\<close>, which is not among the sources; the spec lists these
  states.
\<close>

datatype OperationStatus =
  Ready | Executing | Success | Failure | FromCache | Skipped | Blocked

text \<open>
  The parameters of \<^verbatim>\<open>NullOperationRunner\<close>; its field \<^verbatim>\<open>name\<close> is called
  \<open>runnerName\<close> here, since \<open>name\<close> is the name of a phase.
\<close>

record INullOperationRunnerParams =
  runnerName :: string
  result :: OperationStatus
  silent :: bool

datatype IOperationRunner =
  ShellOperationRunner IShellOperationRunnerOptions
| NullOperationRunner INullOperationRunnerParams

datatype error = Error string

text \<open>
  What the file takes from its surroundings: \<^verbatim>\<open>process.platform\<close>,
  \<^verbatim>\<open>RushConstants.phaseNamePrefix\<close> and \<^verbatim>\<open>convertSlashesForWindows\<close> (exported by
  \<^verbatim>\<open>ShellOperationRunner.ts\<close>). None of them is declared in the sources at hand, so
  each is a parameter.
\<close>

record env =
  platform :: string
  phaseNamePrefix :: string
  convertSlashesForWindows :: "string \<Rightarrow> string"

text \<open>
  The factory object: \<^verbatim>\<open>_options\<close> and \<^verbatim>\<open>_customParametersByPhase\<close>. The third
  field is not a field of the class: it is a probe that records, in order, the
  parameter of every \<^verbatim>\<open>appendToArgList\<close> call made so far.
\<close>

record ShellOperationRunnerFactory =
  options :: IShellOperationRunnerFactoryOptions
  customParametersByPhase :: "ref \<rightharpoonup> string list"
  appendToArgListCalls :: "ref list"

subsection \<open>JavaScript helpers\<close>

text \<open>\<^verbatim>\<open>Array.prototype.join\<close> on an array of strings.\<close>

fun join :: "string \<Rightarrow> string list \<Rightarrow> string" where
  "join sep [] = []"
| "join sep [x] = x"
| "join sep (x # y # ys) = x @ sep @ join sep (y # ys)"

text \<open>
  Truthiness of a value of type \<^verbatim>\<open>string | undefined\<close>: \<^verbatim>\<open>undefined\<close> and the empty
  string are falsy.
\<close>

fun truthy :: "string option \<Rightarrow> bool" where
  "truthy None = False"
| "truthy (Some s) = (s \<noteq> [])"

text \<open>\<^verbatim>\<open>x || d\<close> for \<^verbatim>\<open>x: string | undefined\<close> and a string \<^verbatim>\<open>d\<close>.\<close>

fun or_else :: "string option \<Rightarrow> string \<Rightarrow> string" where
  "or_else None d = d"
| "or_else (Some s) d = (if s \<noteq> [] then s else d)"

text \<open>\<^verbatim>\<open>!v\<close> for a value read from the script table.\<close>

fun falsy :: "rawCommand \<Rightarrow> bool" where
  "falsy Undefined = True"
| "falsy Null = True"
| "falsy (Str s) = (s = [])"
| "falsy (ObjectValue shown) = False"

text \<open>\<^verbatim>\<open>`${v}`\<close> for a value read from the script table.\<close>

fun templateString :: "rawCommand \<Rightarrow> string" where
  "templateString Undefined = ''undefined''"
| "templateString Null = ''null''"
| "templateString (Str s) = s"
| "templateString (ObjectValue shown) = shown"

definition quote :: string where
  "quote = [CHR 0x27]"

subsection \<open>The factory\<close>

text \<open>The constructor: the options as given, an empty map.\<close>

definition new_ShellOperationRunnerFactory ::
  "IShellOperationRunnerFactoryOptions \<Rightarrow> ShellOperationRunnerFactory" where
  "new_ShellOperationRunnerFactory opts =
     \<lparr>options = opts, customParametersByPhase = Map.empty, appendToArgListCalls = []\<rparr>"

text \<open>
  \<^verbatim>\<open>Object.prototype\<close>, which the script table inherits from: \<^verbatim>\<open>package.json\<close> is
  read into plain objects. Each member is a function, but \<^verbatim>\<open>__proto__\<close>, whose getter
  returns the prototype object itself; the strings are what Node makes of them in a
  template literal.
\<close>

definition objectPrototype :: "string \<rightharpoonup> rawCommand" where
  "objectPrototype =
     [''constructor'' \<mapsto> ObjectValue ''function Object() { [native code] }'',
      ''hasOwnProperty'' \<mapsto> ObjectValue ''function hasOwnProperty() { [native code] }'',
      ''isPrototypeOf'' \<mapsto> ObjectValue ''function isPrototypeOf() { [native code] }'',
      ''propertyIsEnumerable'' \<mapsto>
         ObjectValue ''function propertyIsEnumerable() { [native code] }'',
      ''toLocaleString'' \<mapsto> ObjectValue ''function toLocaleString() { [native code] }'',
      ''toString'' \<mapsto> ObjectValue ''function toString() { [native code] }'',
      ''valueOf'' \<mapsto> ObjectValue ''function valueOf() { [native code] }'',
      ''__defineGetter__'' \<mapsto> ObjectValue ''function __defineGetter__() { [native code] }'',
      ''__defineSetter__'' \<mapsto> ObjectValue ''function __defineSetter__() { [native code] }'',
      ''__lookupGetter__'' \<mapsto> ObjectValue ''function __lookupGetter__() { [native code] }'',
      ''__lookupSetter__'' \<mapsto> ObjectValue ''function __lookupSetter__() { [native code] }'',
      ''__proto__'' \<mapsto> ObjectValue ''[object Object]'']"

text \<open>
  \<^verbatim>\<open>scripts?.[commandToRun]\<close> in \<^verbatim>\<open>_getScriptToRun\<close>: \<^verbatim>\<open>undefined\<close> when there is no
  table; otherwise a property read, which gives the table's own entry when it has one
  and else walks the prototype chain, so that a name the table lacks reads as the
  member of \<^verbatim>\<open>Object.prototype\<close> of that name, and as \<^verbatim>\<open>undefined\<close> only when there
  is none.
\<close>

definition scriptEntry :: "RushConfigurationProject \<Rightarrow> string \<Rightarrow> rawCommand" where
  "scriptEntry proj commandName =
     (case scripts (packageJson proj) of
        None \<Rightarrow> Undefined
      | Some table \<Rightarrow>
          (case table commandName of
             Some v \<Rightarrow> v
           | None \<Rightarrow>
               (case objectPrototype commandName of None \<Rightarrow> Undefined | Some m \<Rightarrow> m)))"

text \<open>
  \<^verbatim>\<open>_getScriptToRun\<close>; \<open>None\<close> is \<^verbatim>\<open>undefined\<close>. Its parameters \<open>proj\<close> and
  \<open>commandName\<close> are \<^verbatim>\<open>rushProject\<close> and \<^verbatim>\<open>commandToRun\<close> in the source, which are
  names of fields here.
\<close>

definition getScriptToRun ::
  "env \<Rightarrow> RushConfigurationProject \<Rightarrow> string \<Rightarrow> string list \<Rightarrow> string option" where
  "getScriptToRun e proj commandName customParameterValues =
     (let rawCommand = scriptEntry proj commandName
      in if rawCommand = Undefined \<or> rawCommand = Null then None
         else if falsy rawCommand then Some []
         else
           let shellCommand =
                 templateString rawCommand @ '' '' @ join '' '' customParameterValues
           in Some (if platform e = ''win32''
                    then convertSlashesForWindows e shellCommand
                    else shellCommand))"

text \<open>\<^verbatim>\<open>_getDisplayName\<close>; \<^verbatim>\<open>s.slice(n)\<close> with \<open>0 \<le> n\<close> is \<open>drop n s\<close>.\<close>

definition getDisplayName :: "env \<Rightarrow> IPhase \<Rightarrow> RushConfigurationProject \<Rightarrow> string" where
  "getDisplayName e ph project =
     (if isSynthetic ph then packageName project
      else
        let phaseNameWithoutPrefix = drop (length (phaseNamePrefix e)) (name ph)
        in packageName project @ '' ('' @ phaseNameWithoutPrefix @ '')'')"

text \<open>
  The loop of \<^verbatim>\<open>_getCustomParameterValuesForPhase\<close> over
  \<^verbatim>\<open>this._options.customParameters\<close>: the state of the loop is the array being filled
  and the probe.
\<close>

fun appendAssociated ::
  "IPhase \<Rightarrow> IRegisteredCustomParameter list \<Rightarrow> string list \<times> ref list
     \<Rightarrow> string list \<times> ref list" where
  "appendAssociated ph [] acc = acc"
| "appendAssociated ph (r # rs) (customParameterValues, calls) =
     (if parameter r \<in> associatedParameters ph
      then appendAssociated ph rs
             (appendToArgList (tsCommandLineParameter r) customParameterValues,
              calls @ [parameter r])
      else appendAssociated ph rs (customParameterValues, calls))"

text \<open>
  \<^verbatim>\<open>_getCustomParameterValuesForPhase\<close>. An array is truthy even when empty, so
  \<^verbatim>\<open>!customParameterValues\<close> holds exactly when the map has no entry.
\<close>

definition getCustomParameterValuesForPhase ::
  "ShellOperationRunnerFactory \<Rightarrow> IPhase \<Rightarrow> string list \<times> ShellOperationRunnerFactory" where
  "getCustomParameterValuesForPhase this ph =
     (case customParametersByPhase this (phase_id ph) of
        Some customParameterValues \<Rightarrow> (customParameterValues, this)
      | None \<Rightarrow>
          let (customParameterValues, calls) =
                appendAssociated ph (customParameters (options this))
                  ([], appendToArgListCalls this)
          in (customParameterValues,
              this\<lparr>customParametersByPhase :=
                     (customParametersByPhase this)(phase_id ph \<mapsto> customParameterValues),
                   appendToArgListCalls := calls\<rparr>))"

text \<open>The message of the error that \<^verbatim>\<open>createOperationRunner\<close> throws.\<close>

definition missingScriptMessage :: "RushConfigurationProject \<Rightarrow> IPhase \<Rightarrow> string" where
  "missingScriptMessage project ph =
     ''The project '' @ quote @ packageName project @ quote @ '' does not define a ''
       @ quote @ name ph @ quote @ '' command in the '' @ quote @ ''scripts'' @ quote
       @ '' section of its package.json''"

text \<open>
  \<^verbatim>\<open>createOperationRunner\<close>, with its argument \<^verbatim>\<open>{ phase, project }\<close> taken apart
  (\<open>ph\<close> is \<^verbatim>\<open>phase\<close>, \<open>this'\<close> is \<^verbatim>\<open>this\<close> after the cache was consulted).
  The result is the error thrown or the runner returned, with the factory as the call
  leaves it.
\<close>

definition createOperationRunner ::
  "env \<Rightarrow> ShellOperationRunnerFactory \<Rightarrow> IPhase \<Rightarrow> RushConfigurationProject
     \<Rightarrow> (error + IOperationRunner) \<times> ShellOperationRunnerFactory" where
  "createOperationRunner e this ph project =
     (let factoryOptions = options this;
          (customParameterValues, this') = getCustomParameterValuesForPhase this ph;
          command = getScriptToRun e project (name ph) customParameterValues
      in if command = None \<and> \<not> ignoreMissingScript ph
         then (Inl (Error (missingScriptMessage project ph)), this')
         else
           let displayName' = getDisplayName e ph project;
               runner =
                 (if truthy command
                  then ShellOperationRunner
                         \<lparr>rushConfiguration = rushConfiguration factoryOptions,
                          buildCacheConfiguration = buildCacheConfiguration factoryOptions,
                          commandLineConfiguration = commandLineConfiguration factoryOptions,
                          isIncrementalBuildAllowed = isIncrementalBuildAllowed factoryOptions,
                          projectChangeAnalyzer = projectChangeAnalyzer factoryOptions,
                          rushProject = project,
                          displayName = displayName',
                          commandToRun = or_else command [],
                          phase = ph\<rparr>
                  else NullOperationRunner
                         \<lparr>runnerName = displayName', result = FromCache, silent = False\<rparr>)
           in (Inr runner, this'))"

subsection \<open>Sample inputs\<close>

text \<open>
  Modelled from the spec: \<^verbatim>\<open>convertSlashesForWindows\<close> is defined in
  \<^verbatim>\<open>ShellOperationRunner.ts\<close>, which is not among the sources. The spec says that on
  Windows the forward slashes of the command line are rewritten to the native path
  separator. This sample converter does that to every slash; the theorems below hold
  for any converter.
\<close>

definition slashesToBackslashes :: "string \<Rightarrow> string" where
  "slashesToBackslashes s = map (\<lambda>c. if c = CHR ''/'' then CHR 0x5C else c) s"

text \<open>Two environments; the prefix is the one Rush gives to the names of its phases.\<close>

definition posixEnv :: env where
  "posixEnv = \<lparr>platform = ''linux'', phaseNamePrefix = ''_phase:'',
                convertSlashesForWindows = slashesToBackslashes\<rparr>"

definition win32Env :: env where
  "win32Env = \<lparr>platform = ''win32'', phaseNamePrefix = ''_phase:'',
                convertSlashesForWindows = slashesToBackslashes\<rparr>"

text \<open>Two custom parameters: a flag, and a parameter with an argument.\<close>

definition productionFlag :: IRegisteredCustomParameter where
  "productionFlag =
     \<lparr>parameter = 1,
      tsCommandLineParameter = \<lparr>appendToArgList = (\<lambda>argList. argList @ [''--production''])\<rparr>\<rparr>"

definition localeParameter :: IRegisteredCustomParameter where
  "localeParameter =
     \<lparr>parameter = 2,
      tsCommandLineParameter =
        \<lparr>appendToArgList = (\<lambda>argList. argList @ [''--locale'', ''en-us''])\<rparr>\<rparr>"

definition sampleOptions :: IShellOperationRunnerFactoryOptions where
  "sampleOptions =
     \<lparr>rushConfiguration = 100, buildCacheConfiguration = None,
      commandLineConfiguration = 101, isIncrementalBuildAllowed = True,
      projectChangeAnalyzer = 102,
      customParameters = [productionFlag, localeParameter]\<rparr>"

definition sampleFactory :: ShellOperationRunnerFactory where
  "sampleFactory = new_ShellOperationRunnerFactory sampleOptions"

definition buildPhase :: IPhase where
  "buildPhase = \<lparr>phase_id = 10, name = ''_phase:build'', isSynthetic = False,
                  ignoreMissingScript = False, associatedParameters = {1, 2}\<rparr>"

definition lintPhase :: IPhase where
  "lintPhase = \<lparr>phase_id = 11, name = ''_phase:lint'', isSynthetic = False,
                 ignoreMissingScript = True, associatedParameters = {}\<rparr>"

definition testPhase :: IPhase where
  "testPhase = \<lparr>phase_id = 12, name = ''_phase:test'', isSynthetic = False,
                 ignoreMissingScript = False, associatedParameters = {1}\<rparr>"

text \<open>The phase of the spec's scenario: named \<^verbatim>\<open>build\<close>, with no custom parameters.\<close>

definition plainBuildPhase :: IPhase where
  "plainBuildPhase = \<lparr>phase_id = 13, name = ''build'', isSynthetic = False,
                       ignoreMissingScript = False, associatedParameters = {}\<rparr>"

definition syntheticPhase :: IPhase where
  "syntheticPhase = \<lparr>phase_id = 14, name = ''rebuild'', isSynthetic = True,
                      ignoreMissingScript = False, associatedParameters = {2}\<rparr>"

text \<open>
  The phase of a command named \<^verbatim>\<open>constructor\<close>, a name that no script table here
  defines.
\<close>

definition constructorPhase :: IPhase where
  "constructorPhase = \<lparr>phase_id = 16, name = ''constructor'', isSynthetic = True,
                        ignoreMissingScript = False, associatedParameters = {}\<rparr>"

text \<open>A phase whose name is the empty string.\<close>

definition unnamedPhase :: IPhase where
  "unnamedPhase = \<lparr>phase_id = 15, name = [], isSynthetic = False,
                    ignoreMissingScript = True, associatedParameters = {}\<rparr>"

definition alpha :: RushConfigurationProject where
  "alpha = \<lparr>packageName = ''alpha'',
             packageJson = \<lparr>scripts = Some [''build'' \<mapsto> Str ''tsc'',
                                              ''_phase:build'' \<mapsto> Str ''node lib/build.js'',
                                              ''rebuild'' \<mapsto> Str ''bin/rebuild'']\<rparr>\<rparr>"

definition beta :: RushConfigurationProject where
  "beta = \<lparr>packageName = ''beta'',
            packageJson = \<lparr>scripts = Some [''_phase:test'' \<mapsto> Str [],
                                             ''_phase:build'' \<mapsto> Null]\<rparr>\<rparr>"

definition gamma :: RushConfigurationProject where
  "gamma = \<lparr>packageName = ''gamma'', packageJson = \<lparr>scripts = None\<rparr>\<rparr>"

text \<open>
  A client of the factory calls \<^verbatim>\<open>createOperationRunner\<close> once for each operation of
  the graph. \<open>createOperationRunners\<close> is such a sequence of calls on one factory, each
  on the factory as the call before left it; a call that throws leaves its changes
  behind, and the client is taken to go on (which only strengthens what is proved of
  the factory afterwards).
\<close>

fun createOperationRunners ::
  "env \<Rightarrow> ShellOperationRunnerFactory \<Rightarrow> (IPhase \<times> RushConfigurationProject) list
     \<Rightarrow> ShellOperationRunnerFactory" where
  "createOperationRunners e this [] = this"
| "createOperationRunners e this ((ph, project) # calls) =
     createOperationRunners e (snd (createOperationRunner e this ph project)) calls"

section \<open>Properties\<close>

lemmas sample_defs =
  posixEnv_def win32Env_def slashesToBackslashes_def productionFlag_def
  localeParameter_def sampleOptions_def sampleFactory_def
  new_ShellOperationRunnerFactory_def buildPhase_def lintPhase_def testPhase_def
  plainBuildPhase_def alpha_def beta_def gamma_def

lemmas factory_defs =
  createOperationRunner_def getCustomParameterValuesForPhase_def getScriptToRun_def
  scriptEntry_def objectPrototype_def getDisplayName_def missingScriptMessage_def quote_def

subsection \<open>The helpers\<close>

lemma appendAssociated_calls:
  "snd (appendAssociated ph rs (vs, cs)) =
     cs @ map parameter (filter (\<lambda>r. parameter r \<in> associatedParameters ph) rs)"
  by (induction rs arbitrary: vs cs) auto

lemma appendAssociated_values:
  "fst (appendAssociated ph rs (vs, cs)) =
     foldl (\<lambda>argList r. appendToArgList (tsCommandLineParameter r) argList) vs
       (filter (\<lambda>r. parameter r \<in> associatedParameters ph) rs)"
  by (induction rs arbitrary: vs cs) auto

lemma getCustom_hit:
  "customParametersByPhase this (phase_id ph) = Some v \<Longrightarrow>
     getCustomParameterValuesForPhase this ph = (v, this)"
  by (simp add: getCustomParameterValuesForPhase_def)

lemma getCustom_miss:
  "customParametersByPhase this (phase_id ph) = None \<Longrightarrow>
     getCustomParameterValuesForPhase this ph =
       (let assoc = filter (\<lambda>r. parameter r \<in> associatedParameters ph)
                      (customParameters (options this));
            vals = foldl (\<lambda>argList r. appendToArgList (tsCommandLineParameter r) argList)
                     [] assoc
        in (vals,
            this\<lparr>customParametersByPhase := (customParametersByPhase this)(phase_id ph \<mapsto> vals),
                 appendToArgListCalls := appendToArgListCalls this @ map parameter assoc\<rparr>))"
  by (simp add: getCustomParameterValuesForPhase_def Let_def case_prod_beta
      appendAssociated_calls appendAssociated_values)

lemma getCustom_stored:
  "customParametersByPhase (snd (getCustomParameterValuesForPhase this ph)) (phase_id ph) =
     Some (fst (getCustomParameterValuesForPhase this ph))"
  by (cases "customParametersByPhase this (phase_id ph)")
     (simp_all add: getCustom_hit getCustom_miss Let_def)

lemma getCustom_options:
  "options (snd (getCustomParameterValuesForPhase this ph)) = options this"
  by (cases "customParametersByPhase this (phase_id ph)")
     (simp_all add: getCustom_hit getCustom_miss Let_def)

lemma getCustom_other:
  "k \<noteq> phase_id ph \<Longrightarrow>
     customParametersByPhase (snd (getCustomParameterValuesForPhase this ph)) k =
       customParametersByPhase this k"
  by (cases "customParametersByPhase this (phase_id ph)")
     (simp_all add: getCustom_hit getCustom_miss Let_def)

lemma getCustom_keeps:
  "customParametersByPhase this k = Some v \<Longrightarrow>
     customParametersByPhase (snd (getCustomParameterValuesForPhase this ph)) k = Some v"
  by (cases "customParametersByPhase this (phase_id ph)")
     (auto simp add: getCustom_hit getCustom_miss Let_def)

lemma getScriptToRun_None:
  "(getScriptToRun e proj n args = None) =
     (scriptEntry proj n = Undefined \<or> scriptEntry proj n = Null)"
  by (simp add: getScriptToRun_def Let_def)

lemma getScriptToRun_empty:
  "scriptEntry proj n = Str [] \<Longrightarrow> getScriptToRun e proj n args = Some []"
  by (simp add: getScriptToRun_def)

lemma getScriptToRun_Str:
  "scriptEntry proj n = Str raw \<Longrightarrow> raw \<noteq> [] \<Longrightarrow>
     getScriptToRun e proj n args =
       Some (if platform e = ''win32''
             then convertSlashesForWindows e (raw @ '' '' @ join '' '' args)
             else raw @ '' '' @ join '' '' args)"
  by (simp add: getScriptToRun_def Let_def)

lemma createOperationRunner_snd:
  "snd (createOperationRunner e this ph project) =
     snd (getCustomParameterValuesForPhase this ph)"
  by (simp add: createOperationRunner_def Let_def case_prod_beta)

lemma createOperationRunner_fst:
  "fst (createOperationRunner e this ph project) =
     (let command = getScriptToRun e project (name ph)
                      (fst (getCustomParameterValuesForPhase this ph))
      in if command = None \<and> \<not> ignoreMissingScript ph
         then Inl (Error (missingScriptMessage project ph))
         else Inr (if truthy command
                   then ShellOperationRunner
                          \<lparr>rushConfiguration = rushConfiguration (options this),
                           buildCacheConfiguration = buildCacheConfiguration (options this),
                           commandLineConfiguration = commandLineConfiguration (options this),
                           isIncrementalBuildAllowed = isIncrementalBuildAllowed (options this),
                           projectChangeAnalyzer = projectChangeAnalyzer (options this),
                           rushProject = project,
                           displayName = getDisplayName e ph project,
                           commandToRun = or_else command [],
                           phase = ph\<rparr>
                   else NullOperationRunner
                          \<lparr>runnerName = getDisplayName e ph project, result = FromCache,
                           silent = False\<rparr>))"
  by (simp add: createOperationRunner_def Let_def case_prod_beta)

subsection \<open>Missing scripts\<close>

text \<open>
  Claim C1. The spec has \<^verbatim>\<open>createOperationRunner\<close> throw the error about the missing
  script exactly when the script table of the project has no entry for the name of the
  phase (or the entry is \<^verbatim>\<open>null\<close>) and the phase does not ignore missing scripts, and
  return a no-op runner when the entry is missing and the phase ignores missing
  scripts. The code reads the entry with \<^verbatim>\<open>scripts?.[phase.name]\<close>, a property read
  that also finds what the table inherits, and so misses the names that the table
  lacks and \<^verbatim>\<open>Object.prototype\<close> has. The table of \<^verbatim>\<open>alpha\<close> defines neither
  \<^verbatim>\<open>constructor\<close> nor \<^verbatim>\<open>_phase:test\<close>, and neither phase ignores missing scripts: for
  the phase \<^verbatim>\<open>_phase:test\<close> the error is thrown, but for the phase \<^verbatim>\<open>constructor\<close>
  nothing is thrown, and the result is a shell runner whose command line is the text
  of the function \<^verbatim>\<open>Object\<close>. With \<^verbatim>\<open>ignoreMissingScript\<close> set, the result for
  \<^verbatim>\<open>constructor\<close> is the same shell runner and not a no-op runner.
\<close>

theorem createOperationRunner_constructor_phase:
  "(case scripts (packageJson alpha) of
      None \<Rightarrow> False
    | Some table \<Rightarrow> table ''constructor'' = None \<and> table ''_phase:test'' = None)
   \<and> \<not> ignoreMissingScript testPhase
   \<and> fst (createOperationRunner posixEnv sampleFactory testPhase alpha) =
       Inl (Error (missingScriptMessage alpha testPhase))
   \<and> \<not> ignoreMissingScript constructorPhase
   \<and> fst (createOperationRunner posixEnv sampleFactory constructorPhase alpha) =
       Inr (ShellOperationRunner
              \<lparr>rushConfiguration = 100, buildCacheConfiguration = None,
               commandLineConfiguration = 101, isIncrementalBuildAllowed = True,
               projectChangeAnalyzer = 102, rushProject = alpha,
               displayName = ''alpha'',
               commandToRun = ''function Object() { [native code] } '',
               phase = constructorPhase\<rparr>)
   \<and> fst (createOperationRunner posixEnv sampleFactory
            (constructorPhase\<lparr>ignoreMissingScript := True\<rparr>) alpha) =
       Inr (ShellOperationRunner
              \<lparr>rushConfiguration = 100, buildCacheConfiguration = None,
               commandLineConfiguration = 101, isIncrementalBuildAllowed = True,
               projectChangeAnalyzer = 102, rushProject = alpha,
               displayName = ''alpha'',
               commandToRun = ''function Object() { [native code] } '',
               phase = constructorPhase\<lparr>ignoreMissingScript := True\<rparr>\<rparr>)"
  by (simp add: sample_defs constructorPhase_def factory_defs Let_def)

subsection \<open>Empty scripts\<close>

text \<open>
  Claim C3. When the entry for the name of the phase is the empty string,
  \<^verbatim>\<open>createOperationRunner\<close> returns a no-op runner with the status \<open>FromCache\<close> and
  throws nothing, whatever the value \<open>flag\<close> of \<^verbatim>\<open>ignoreMissingScript\<close> is.
\<close>

theorem createOperationRunner_empty_script:
  "scriptEntry project (name ph) = Str [] \<Longrightarrow>
     fst (createOperationRunner e this (ph\<lparr>ignoreMissingScript := flag\<rparr>) project) =
       Inr (NullOperationRunner
              \<lparr>runnerName = getDisplayName e ph project, result = FromCache, silent = False\<rparr>)"
proof -
  assume h: "scriptEntry project (name ph) = Str []"
  let ?ph = "ph\<lparr>ignoreMissingScript := flag\<rparr>"
  have "getScriptToRun e project (name ?ph) (fst (getCustomParameterValuesForPhase this ?ph))
          = Some []"
    using h by (simp add: getScriptToRun_empty)
  moreover have "getDisplayName e ?ph project = getDisplayName e ph project"
    by (simp add: getDisplayName_def)
  ultimately show ?thesis
    by (simp add: createOperationRunner_fst)
qed

theorem createOperationRunner_empty_script_witness:
  "scriptEntry beta (name testPhase) = Str []
   \<and> fst (createOperationRunner posixEnv sampleFactory
            (testPhase\<lparr>ignoreMissingScript := False\<rparr>) beta) =
       Inr (NullOperationRunner
              \<lparr>runnerName = ''beta (test)'', result = FromCache, silent = False\<rparr>)
   \<and> fst (createOperationRunner posixEnv sampleFactory
            (testPhase\<lparr>ignoreMissingScript := True\<rparr>) beta) =
       Inr (NullOperationRunner
              \<lparr>runnerName = ''beta (test)'', result = FromCache, silent = False\<rparr>)"
proof -
  have h: "scriptEntry beta (name testPhase) = Str []"
    by (simp add: scriptEntry_def beta_def testPhase_def)
  have d: "getDisplayName posixEnv testPhase beta = ''beta (test)''"
    by (simp add: getDisplayName_def posixEnv_def testPhase_def beta_def)
  from createOperationRunner_empty_script [OF h, of posixEnv sampleFactory False]
       createOperationRunner_empty_script [OF h, of posixEnv sampleFactory True] h d
  show ?thesis by simp
qed

subsection \<open>Display names\<close>

text \<open>
  Claim C5. The display name is the name of the package when the phase is synthetic;
  otherwise it is the name of the package followed by, in parentheses, the name of the
  phase without its first characters, as many as the prefix of phase names has. For a
  name that starts with the prefix this is the name with the prefix stripped.
\<close>

theorem getDisplayName_cases:
  "(isSynthetic ph \<longrightarrow> getDisplayName e ph project = packageName project)
   \<and> (\<not> isSynthetic ph \<longrightarrow>
        getDisplayName e ph project =
          packageName project @ '' ('' @ drop (length (phaseNamePrefix e)) (name ph) @ '')'')
   \<and> (\<not> isSynthetic ph \<and> name ph = phaseNamePrefix e @ rest \<longrightarrow>
        getDisplayName e ph project = packageName project @ '' ('' @ rest @ '')'')"
  by (simp add: getDisplayName_def Let_def)

theorem getDisplayName_cases_witness:
  "isSynthetic syntheticPhase \<and> getDisplayName posixEnv syntheticPhase alpha = ''alpha''
   \<and> \<not> isSynthetic buildPhase \<and> name buildPhase = phaseNamePrefix posixEnv @ ''build''
   \<and> getDisplayName posixEnv buildPhase alpha = ''alpha (build)''"
proof -
  have s: "isSynthetic syntheticPhase" by (simp add: syntheticPhase_def)
  have n: "\<not> isSynthetic buildPhase" by (simp add: buildPhase_def)
  have p: "name buildPhase = phaseNamePrefix posixEnv @ ''build''"
    by (simp add: buildPhase_def posixEnv_def)
  have a: "packageName alpha = ''alpha''" by (simp add: alpha_def)
  from getDisplayName_cases [of syntheticPhase posixEnv alpha "[]"] s
  have 1: "getDisplayName posixEnv syntheticPhase alpha = packageName alpha" by blast
  from getDisplayName_cases [of buildPhase posixEnv alpha "''build''"] n p
  have 2: "getDisplayName posixEnv buildPhase alpha = packageName alpha @ '' ('' @ ''build'' @ '')''"
    by blast
  from s n p 1 2 a show ?thesis by simp
qed

subsection \<open>Shell commands\<close>

text \<open>
  Claim C2, as the spec states it, fails in its scenario: for the project \<^verbatim>\<open>alpha\<close> with
  the script \<^verbatim>\<open>build: "tsc"\<close> and the phase \<^verbatim>\<open>build\<close> without custom parameters, the
  template \<^verbatim>\<open>`${rawCommand} ${customParameterValues.join(' ')}`\<close> gives the command
  \<^verbatim>\<open>"tsc "\<close>, with the separating space, and not \<^verbatim>\<open>"tsc"\<close>.
\<close>

theorem createOperationRunner_tsc_counterexample:
  "(case fst (createOperationRunner posixEnv sampleFactory plainBuildPhase alpha) of
      Inr (ShellOperationRunner r) \<Rightarrow> commandToRun r = ''tsc '' \<and> commandToRun r \<noteq> ''tsc''
    | _ \<Rightarrow> False)"
  by (simp add: sample_defs factory_defs Let_def)

text \<open>
  Claim C2, amended. For every project whose entry for the name of the phase is a
  non-empty string, the command line is the raw script, one space, and the argument
  list of the phase joined by single spaces (the space is there also when the list is
  empty). Off Windows \<^verbatim>\<open>createOperationRunner\<close> returns a shell runner with exactly this
  command line; on Windows the command line goes through
  \<^verbatim>\<open>convertSlashesForWindows\<close> first, and the shell runner carries the converted line
  when that is not empty. The display name of the runner is the one
  \<^verbatim>\<open>_getDisplayName\<close> computes, and the other fields come from the options of the
  factory.
\<close>

theorem createOperationRunner_shell_command:
  assumes "scriptEntry project (name ph) = Str raw" and "raw \<noteq> []"
  shows
    "(platform e \<noteq> ''win32'' \<longrightarrow>
        fst (createOperationRunner e this ph project) =
          Inr (ShellOperationRunner
                 \<lparr>rushConfiguration = rushConfiguration (options this),
                  buildCacheConfiguration = buildCacheConfiguration (options this),
                  commandLineConfiguration = commandLineConfiguration (options this),
                  isIncrementalBuildAllowed = isIncrementalBuildAllowed (options this),
                  projectChangeAnalyzer = projectChangeAnalyzer (options this),
                  rushProject = project,
                  displayName = getDisplayName e ph project,
                  commandToRun =
                    raw @ '' '' @ join '' '' (fst (getCustomParameterValuesForPhase this ph)),
                  phase = ph\<rparr>))
     \<and> (platform e = ''win32''
        \<and> convertSlashesForWindows e
            (raw @ '' '' @ join '' '' (fst (getCustomParameterValuesForPhase this ph))) \<noteq> []
        \<longrightarrow>
        fst (createOperationRunner e this ph project) =
          Inr (ShellOperationRunner
                 \<lparr>rushConfiguration = rushConfiguration (options this),
                  buildCacheConfiguration = buildCacheConfiguration (options this),
                  commandLineConfiguration = commandLineConfiguration (options this),
                  isIncrementalBuildAllowed = isIncrementalBuildAllowed (options this),
                  projectChangeAnalyzer = projectChangeAnalyzer (options this),
                  rushProject = project,
                  displayName = getDisplayName e ph project,
                  commandToRun =
                    convertSlashesForWindows e
                      (raw @ '' '' @ join '' '' (fst (getCustomParameterValuesForPhase this ph))),
                  phase = ph\<rparr>))"
proof -
  let ?args = "fst (getCustomParameterValuesForPhase this ph)"
  have cmd: "getScriptToRun e project (name ph) ?args =
               Some (if platform e = ''win32''
                     then convertSlashesForWindows e (raw @ '' '' @ join '' '' ?args)
                     else raw @ '' '' @ join '' '' ?args)"
    using assms by (rule getScriptToRun_Str)
  show ?thesis
    unfolding createOperationRunner_fst cmd Let_def using assms(2) by simp
qed

theorem createOperationRunner_shell_command_witness:
  "scriptEntry alpha (name plainBuildPhase) = Str ''tsc'' \<and> ''tsc'' \<noteq> []
   \<and> platform posixEnv \<noteq> ''win32''
   \<and> fst (createOperationRunner posixEnv sampleFactory plainBuildPhase alpha) =
       Inr (ShellOperationRunner
              \<lparr>rushConfiguration = 100, buildCacheConfiguration = None,
               commandLineConfiguration = 101, isIncrementalBuildAllowed = True,
               projectChangeAnalyzer = 102, rushProject = alpha,
               displayName = ''alpha ('' @ drop (length ''_phase:'') ''build'' @ '')'',
               commandToRun = ''tsc '', phase = plainBuildPhase\<rparr>)
   \<and> scriptEntry alpha (name buildPhase) = Str ''node lib/build.js''
   \<and> platform win32Env = ''win32''
   \<and> fst (createOperationRunner win32Env sampleFactory buildPhase alpha) =
       Inr (ShellOperationRunner
              \<lparr>rushConfiguration = 100, buildCacheConfiguration = None,
               commandLineConfiguration = 101, isIncrementalBuildAllowed = True,
               projectChangeAnalyzer = 102, rushProject = alpha,
               displayName = ''alpha (build)'',
               commandToRun = ''node lib'' @ [CHR 0x5C]
                  @ ''build.js --production --locale en-us'',
               phase = buildPhase\<rparr>)"
proof -
  have h1: "scriptEntry alpha (name plainBuildPhase) = Str ''tsc''"
    by (simp add: scriptEntry_def alpha_def plainBuildPhase_def)
  have h2: "''tsc'' \<noteq> []" by simp
  have h3: "platform posixEnv \<noteq> ''win32''" by (simp add: posixEnv_def)
  have k1: "scriptEntry alpha (name buildPhase) = Str ''node lib/build.js''"
    by (simp add: scriptEntry_def alpha_def buildPhase_def)
  have k2: "''node lib/build.js'' \<noteq> []" by simp
  have k3: "platform win32Env = ''win32''" by (simp add: win32Env_def)
  have a1: "fst (getCustomParameterValuesForPhase sampleFactory plainBuildPhase) = []"
    by (simp add: sample_defs getCustomParameterValuesForPhase_def)
  have a2: "fst (getCustomParameterValuesForPhase sampleFactory buildPhase) =
              [''--production'', ''--locale'', ''en-us'']"
    by (simp add: sample_defs getCustomParameterValuesForPhase_def)
  have o: "options sampleFactory = sampleOptions"
    by (simp add: sampleFactory_def new_ShellOperationRunnerFactory_def)
  have d1: "getDisplayName posixEnv plainBuildPhase alpha = ''alpha ()''"
    by (simp add: getDisplayName_def posixEnv_def plainBuildPhase_def alpha_def)
  have d2: "getDisplayName win32Env buildPhase alpha = ''alpha (build)''"
    by (simp add: getDisplayName_def win32Env_def buildPhase_def alpha_def)
  have c: "convertSlashesForWindows win32Env = slashesToBackslashes"
    by (simp add: win32Env_def)
  from createOperationRunner_shell_command [OF h1 h2, of posixEnv sampleFactory] h3
  have r1: "fst (createOperationRunner posixEnv sampleFactory plainBuildPhase alpha) =
       Inr (ShellOperationRunner
              \<lparr>rushConfiguration = 100, buildCacheConfiguration = None,
               commandLineConfiguration = 101, isIncrementalBuildAllowed = True,
               projectChangeAnalyzer = 102, rushProject = alpha,
               displayName = ''alpha ()'',
               commandToRun = ''tsc '', phase = plainBuildPhase\<rparr>)"
    by (simp add: a1 o d1 sampleOptions_def)
  from createOperationRunner_shell_command [OF k1 k2, of win32Env sampleFactory] k3
  have r2: "fst (createOperationRunner win32Env sampleFactory buildPhase alpha) =
       Inr (ShellOperationRunner
              \<lparr>rushConfiguration = 100, buildCacheConfiguration = None,
               commandLineConfiguration = 101, isIncrementalBuildAllowed = True,
               projectChangeAnalyzer = 102, rushProject = alpha,
               displayName = ''alpha (build)'',
               commandToRun = ''node lib'' @ [CHR 0x5C]
                  @ ''build.js --production --locale en-us'',
               phase = buildPhase\<rparr>)"
    by (simp add: a2 o d2 c sampleOptions_def slashesToBackslashes_def)
  from h1 h2 h3 k1 k3 r1 r2 show ?thesis by simp
qed

subsection \<open>Resolving the script\<close>

text \<open>
  Claim C6. For a non-empty script, \<^verbatim>\<open>_getScriptToRun\<close> gives the command line to
  \<^verbatim>\<open>convertSlashesForWindows\<close> exactly when \<^verbatim>\<open>process.platform\<close> is \<^verbatim>\<open>win32\<close>, and
  returns what the converter returns; on every other platform it returns the command
  line as it is. What the converter does to the slashes is its own business: it is a
  parameter here.
\<close>

theorem getScriptToRun_slashes:
  assumes "scriptEntry project commandName = Str raw" and "raw \<noteq> []"
  shows
    "(platform e = ''win32'' \<longrightarrow>
        getScriptToRun e project commandName args =
          Some (convertSlashesForWindows e (raw @ '' '' @ join '' '' args)))
     \<and> (platform e \<noteq> ''win32'' \<longrightarrow>
        getScriptToRun e project commandName args = Some (raw @ '' '' @ join '' '' args))"
  using getScriptToRun_Str [OF assms, of e args] by simp

theorem getScriptToRun_slashes_witness:
  "scriptEntry alpha ''rebuild'' = Str ''bin/rebuild'' \<and> ''bin/rebuild'' \<noteq> []
   \<and> platform win32Env = ''win32''
   \<and> getScriptToRun win32Env alpha ''rebuild'' [''--out'', ''a/b''] =
       Some (''bin'' @ [CHR 0x5C] @ ''rebuild --out a'' @ [CHR 0x5C] @ ''b'')
   \<and> platform posixEnv \<noteq> ''win32''
   \<and> getScriptToRun posixEnv alpha ''rebuild'' [''--out'', ''a/b''] =
       Some ''bin/rebuild --out a/b''"
proof -
  have h1: "scriptEntry alpha ''rebuild'' = Str ''bin/rebuild''"
    by (simp add: scriptEntry_def alpha_def)
  have h2: "''bin/rebuild'' \<noteq> []" by simp
  have w: "platform win32Env = ''win32''" by (simp add: win32Env_def)
  have p: "platform posixEnv \<noteq> ''win32''" by (simp add: posixEnv_def)
  have c: "convertSlashesForWindows win32Env = slashesToBackslashes"
    by (simp add: win32Env_def)
  from getScriptToRun_slashes [OF h1 h2, of win32Env "[''--out'', ''a/b'']"] w
  have r1: "getScriptToRun win32Env alpha ''rebuild'' [''--out'', ''a/b''] =
       Some (''bin'' @ [CHR 0x5C] @ ''rebuild --out a'' @ [CHR 0x5C] @ ''b'')"
    by (simp add: c slashesToBackslashes_def)
  from getScriptToRun_slashes [OF h1 h2, of posixEnv "[''--out'', ''a/b'']"] p
  have r2: "getScriptToRun posixEnv alpha ''rebuild'' [''--out'', ''a/b''] =
       Some ''bin/rebuild --out a/b''"
    by simp
  from h1 h2 w p r1 r2 show ?thesis by simp
qed

text \<open>
  Claim C7. The spec has \<^verbatim>\<open>_getScriptToRun\<close> keep three cases apart: \<^verbatim>\<open>undefined\<close>
  exactly when the entry is missing or \<^verbatim>\<open>null\<close>, the empty string exactly when the
  entry is the empty string, a command line exactly when the entry is a non-empty
  string. The code does so for a missing table, for \<^verbatim>\<open>null\<close>, for the empty string,
  for a non-empty string, and for a name that neither the table nor
  \<^verbatim>\<open>Object.prototype\<close> has. For the name \<^verbatim>\<open>constructor\<close>, which the table of \<^verbatim>\<open>alpha\<close>
  lacks, the property read finds the inherited function, and the code returns a
  command line made of its text, as if the entry were a non-empty string.
\<close>

theorem getScriptToRun_constructor_key:
  "(case scripts (packageJson alpha) of
      None \<Rightarrow> False
    | Some table \<Rightarrow> table ''constructor'' = None \<and> table ''_phase:test'' = None)
   \<and> getScriptToRun posixEnv alpha ''constructor'' [] =
       Some ''function Object() { [native code] } ''
   \<and> getScriptToRun posixEnv alpha ''_phase:test'' [] = None
   \<and> getScriptToRun posixEnv gamma ''_phase:build'' [] = None
   \<and> getScriptToRun posixEnv beta ''_phase:build'' [] = None
   \<and> getScriptToRun posixEnv beta ''_phase:test'' [] = Some []
   \<and> getScriptToRun posixEnv alpha ''build'' [] = Some ''tsc ''"
  by (simp add: sample_defs getScriptToRun_def scriptEntry_def objectPrototype_def Let_def)

text \<open>
  Claim C9. Whenever \<^verbatim>\<open>createOperationRunner\<close> builds a shell runner, the command line
  of the runner is not empty, and it is the command line that \<^verbatim>\<open>_getScriptToRun\<close>
  returned: the fallback of \<^verbatim>\<open>commandToRun || ''\<close> is never taken.
\<close>

theorem createOperationRunner_shell_nonempty:
  assumes "fst (createOperationRunner e this ph project) = Inr (ShellOperationRunner r)"
  shows "commandToRun r \<noteq> []
         \<and> getScriptToRun e project (name ph)
             (fst (getCustomParameterValuesForPhase this ph)) = Some (commandToRun r)"
proof -
  let ?command = "getScriptToRun e project (name ph)
                    (fst (getCustomParameterValuesForPhase this ph))"
  from assms have t: "truthy ?command"
    by (simp add: createOperationRunner_fst Let_def split: if_splits)
  then obtain c where c: "?command = Some c" "c \<noteq> []"
    by (cases ?command) simp_all
  with assms have "commandToRun r = c"
    by (auto simp add: createOperationRunner_fst Let_def split: if_splits)
  with c show ?thesis by simp
qed

theorem createOperationRunner_shell_nonempty_witness:
  "fst (createOperationRunner posixEnv sampleFactory buildPhase alpha) =
     Inr (ShellOperationRunner
            \<lparr>rushConfiguration = 100, buildCacheConfiguration = None,
             commandLineConfiguration = 101, isIncrementalBuildAllowed = True,
             projectChangeAnalyzer = 102, rushProject = alpha,
             displayName = ''alpha (build)'',
             commandToRun = ''node lib/build.js --production --locale en-us'',
             phase = buildPhase\<rparr>)
   \<and> ''node lib/build.js --production --locale en-us'' \<noteq> []
   \<and> getScriptToRun posixEnv alpha (name buildPhase)
        (fst (getCustomParameterValuesForPhase sampleFactory buildPhase)) =
        Some ''node lib/build.js --production --locale en-us''"
proof -
  have h: "fst (createOperationRunner posixEnv sampleFactory buildPhase alpha) =
     Inr (ShellOperationRunner
            \<lparr>rushConfiguration = 100, buildCacheConfiguration = None,
             commandLineConfiguration = 101, isIncrementalBuildAllowed = True,
             projectChangeAnalyzer = 102, rushProject = alpha,
             displayName = ''alpha (build)'',
             commandToRun = ''node lib/build.js --production --locale en-us'',
             phase = buildPhase\<rparr>)"
    by (simp add: sample_defs factory_defs Let_def)
  from createOperationRunner_shell_nonempty [OF h] h show ?thesis by simp
qed

subsection \<open>The cache of custom parameters\<close>

lemma createOperationRunner_keeps:
  "customParametersByPhase this k = Some v \<Longrightarrow>
     customParametersByPhase (snd (createOperationRunner e this ph project)) k = Some v"
  by (simp add: createOperationRunner_snd getCustom_keeps)

lemma createOperationRunners_keeps:
  "customParametersByPhase this k = Some v \<Longrightarrow>
     customParametersByPhase (createOperationRunners e this calls) k = Some v"
proof (induction calls arbitrary: this)
  case Nil
  then show ?case by simp
next
  case (Cons c calls)
  obtain ph project where c: "c = (ph, project)" by (cases c)
  from Cons.prems
  have "customParametersByPhase (snd (createOperationRunner e this ph project)) k = Some v"
    by (rule createOperationRunner_keeps)
  then show ?case unfolding c by (simp add: Cons.IH)
qed

text \<open>
  Claim C4. The argument list is memoized by the identity of the phase alone. A call of
  \<^verbatim>\<open>_getCustomParameterValuesForPhase\<close> for a phase that has no entry in the map calls
  \<^verbatim>\<open>appendToArgList\<close> once for each registered parameter that the phase is associated
  with, in order, starting from the empty array, and stores the array under the phase.
  After a call for a phase, and after any further calls of \<^verbatim>\<open>createOperationRunner\<close>
  for any phases and projects, a call for a phase object of the same identity returns
  the list of the first call and leaves the factory and the probe as they are: no
  \<^verbatim>\<open>appendToArgList\<close> is called again. The same holds of \<^verbatim>\<open>createOperationRunner\<close> for
  that phase and any project.
\<close>

theorem getCustomParameterValuesForPhase_memoized:
  "(customParametersByPhase this (phase_id ph) = None \<longrightarrow>
      getCustomParameterValuesForPhase this ph =
        (let assoc = filter (\<lambda>r. parameter r \<in> associatedParameters ph)
                       (customParameters (options this));
             vals = foldl (\<lambda>argList r. appendToArgList (tsCommandLineParameter r) argList)
                      [] assoc
         in (vals,
             this\<lparr>customParametersByPhase :=
                    (customParametersByPhase this)(phase_id ph \<mapsto> vals),
                  appendToArgListCalls := appendToArgListCalls this @ map parameter assoc\<rparr>)))
   \<and> (\<forall>e calls ph'. phase_id ph' = phase_id ph \<longrightarrow>
        (let first = getCustomParameterValuesForPhase this ph;
             later = createOperationRunners e (snd first) calls
         in getCustomParameterValuesForPhase later ph' = (fst first, later)))
   \<and> (\<forall>e calls ph' project. phase_id ph' = phase_id ph \<longrightarrow>
        (let first = getCustomParameterValuesForPhase this ph;
             later = createOperationRunners e (snd first) calls
         in snd (createOperationRunner e later ph' project) = later))"
proof -
  let ?first = "getCustomParameterValuesForPhase this ph"
  have hit: "getCustomParameterValuesForPhase (createOperationRunners e (snd ?first) calls) ph'
               = (fst ?first, createOperationRunners e (snd ?first) calls)"
    if "phase_id ph' = phase_id ph" for e calls ph'
  proof -
    have "customParametersByPhase (snd ?first) (phase_id ph) = Some (fst ?first)"
      by (rule getCustom_stored)
    then have "customParametersByPhase (createOperationRunners e (snd ?first) calls)
                 (phase_id ph') = Some (fst ?first)"
      unfolding that by (rule createOperationRunners_keeps)
    then show ?thesis by (rule getCustom_hit)
  qed
  have miss: "customParametersByPhase this (phase_id ph) = None \<longrightarrow>
      getCustomParameterValuesForPhase this ph =
        (let assoc = filter (\<lambda>r. parameter r \<in> associatedParameters ph)
                       (customParameters (options this));
             vals = foldl (\<lambda>argList r. appendToArgList (tsCommandLineParameter r) argList)
                      [] assoc
         in (vals,
             this\<lparr>customParametersByPhase :=
                    (customParametersByPhase this)(phase_id ph \<mapsto> vals),
                  appendToArgListCalls := appendToArgListCalls this @ map parameter assoc\<rparr>))"
    using getCustom_miss by blast
  from miss hit show ?thesis
    by (simp add: Let_def createOperationRunner_snd)
qed

theorem getCustomParameterValuesForPhase_memoized_witness:
  "customParametersByPhase sampleFactory (phase_id buildPhase) = None
   \<and> getCustomParameterValuesForPhase sampleFactory buildPhase =
       ([''--production'', ''--locale'', ''en-us''],
        sampleFactory\<lparr>customParametersByPhase :=
                        [10 \<mapsto> [''--production'', ''--locale'', ''en-us'']],
                      appendToArgListCalls := [1, 2]\<rparr>)
   \<and> phase_id (buildPhase\<lparr>associatedParameters := {}\<rparr>) = phase_id buildPhase
   \<and> fst (getCustomParameterValuesForPhase
            (createOperationRunners posixEnv
               (snd (getCustomParameterValuesForPhase sampleFactory buildPhase))
               [(testPhase, gamma), (lintPhase, beta)])
            (buildPhase\<lparr>associatedParameters := {}\<rparr>)) =
       [''--production'', ''--locale'', ''en-us'']
   \<and> appendToArgListCalls
       (snd (createOperationRunner posixEnv
               (createOperationRunners posixEnv
                  (snd (getCustomParameterValuesForPhase sampleFactory buildPhase))
                  [(testPhase, gamma), (lintPhase, beta)])
               buildPhase beta)) = [1, 2, 1]"
proof -
  let ?first = "getCustomParameterValuesForPhase sampleFactory buildPhase"
  let ?later = "createOperationRunners posixEnv (snd ?first)
                  [(testPhase, gamma), (lintPhase, beta)]"
  have none: "customParametersByPhase sampleFactory (phase_id buildPhase) = None"
    by (simp add: sampleFactory_def new_ShellOperationRunnerFactory_def)
  have same: "phase_id (buildPhase\<lparr>associatedParameters := {}\<rparr>) = phase_id buildPhase"
    by simp
  note m = getCustomParameterValuesForPhase_memoized [of sampleFactory buildPhase]
  from m none have first: "?first =
       ([''--production'', ''--locale'', ''en-us''],
        sampleFactory\<lparr>customParametersByPhase :=
                        [10 \<mapsto> [''--production'', ''--locale'', ''en-us'']],
                      appendToArgListCalls := [1, 2]\<rparr>)"
    by (simp add: sample_defs Let_def)
  from m same have "getCustomParameterValuesForPhase ?later
                      (buildPhase\<lparr>associatedParameters := {}\<rparr>) = (fst ?first, ?later)"
    unfolding Let_def by blast
  then have again: "fst (getCustomParameterValuesForPhase ?later
                      (buildPhase\<lparr>associatedParameters := {}\<rparr>)) =
                    [''--production'', ''--locale'', ''en-us'']"
    by (simp add: first)
  from m have "snd (createOperationRunner posixEnv ?later buildPhase beta) = ?later"
    unfolding Let_def by blast
  moreover have "appendToArgListCalls ?later = [1, 2, 1]"
    unfolding first by (simp add: sample_defs factory_defs Let_def)
  ultimately have probe:
    "appendToArgListCalls (snd (createOperationRunner posixEnv ?later buildPhase beta))
       = [1, 2, 1]"
    by simp
  from none first same again probe show ?thesis by blast
qed

text \<open>
  Claim C8. A call of \<^verbatim>\<open>createOperationRunner\<close>, whether it returns or throws, leaves
  the options of the factory as they are and leaves every entry of the map for another
  phase as it is; the map is the same as before, or it has one new entry, for the phase
  of the call, which had none. When the phase had an entry the whole factory is
  unchanged. After the call the phase has an entry, the list the call worked with, also
  when the call throws. The project and the phase are values that the function only
  reads; the runner it returns carries them as they were given.
\<close>

theorem createOperationRunner_frame:
  "options (snd (createOperationRunner e this ph project)) = options this
   \<and> (\<forall>k. k \<noteq> phase_id ph \<longrightarrow>
        customParametersByPhase (snd (createOperationRunner e this ph project)) k =
          customParametersByPhase this k)
   \<and> (customParametersByPhase (snd (createOperationRunner e this ph project)) =
        customParametersByPhase this
      \<or> customParametersByPhase this (phase_id ph) = None
        \<and> customParametersByPhase (snd (createOperationRunner e this ph project)) =
            (customParametersByPhase this)
              (phase_id ph \<mapsto> fst (getCustomParameterValuesForPhase this ph)))
   \<and> (\<forall>v. customParametersByPhase this (phase_id ph) = Some v \<longrightarrow>
        snd (createOperationRunner e this ph project) = this)
   \<and> customParametersByPhase (snd (createOperationRunner e this ph project)) (phase_id ph) =
       Some (fst (getCustomParameterValuesForPhase this ph))
   \<and> (\<forall>err. fst (createOperationRunner e this ph project) = Inl err \<longrightarrow>
        customParametersByPhase (snd (createOperationRunner e this ph project)) (phase_id ph)
          \<noteq> None)
   \<and> (\<forall>r. fst (createOperationRunner e this ph project) = Inr (ShellOperationRunner r) \<longrightarrow>
        rushProject r = project \<and> phase r = ph)"
proof -
  let ?this' = "snd (getCustomParameterValuesForPhase this ph)"
  have a: "options ?this' = options this" by (rule getCustom_options)
  have b: "\<forall>k. k \<noteq> phase_id ph \<longrightarrow>
             customParametersByPhase ?this' k = customParametersByPhase this k"
    by (simp add: getCustom_other)
  have c: "customParametersByPhase ?this' = customParametersByPhase this
      \<or> customParametersByPhase this (phase_id ph) = None
        \<and> customParametersByPhase ?this' =
            (customParametersByPhase this)
              (phase_id ph \<mapsto> fst (getCustomParameterValuesForPhase this ph))"
    by (cases "customParametersByPhase this (phase_id ph)")
       (simp_all add: getCustom_hit getCustom_miss Let_def)
  have d: "\<forall>v. customParametersByPhase this (phase_id ph) = Some v \<longrightarrow> ?this' = this"
    by (simp add: getCustom_hit)
  have f: "customParametersByPhase ?this' (phase_id ph) =
             Some (fst (getCustomParameterValuesForPhase this ph))"
    by (rule getCustom_stored)
  have g: "\<forall>r. fst (createOperationRunner e this ph project) = Inr (ShellOperationRunner r) \<longrightarrow>
             rushProject r = project \<and> phase r = ph"
    by (auto simp add: createOperationRunner_fst Let_def split: if_splits)
  from a b c d f g show ?thesis
    unfolding createOperationRunner_snd by simp
qed

theorem createOperationRunner_frame_witness:
  "fst (createOperationRunner posixEnv sampleFactory testPhase gamma) =
     Inl (Error (missingScriptMessage gamma testPhase))
   \<and> customParametersByPhase (snd (createOperationRunner posixEnv sampleFactory testPhase gamma))
       (phase_id testPhase) = Some [''--production'']
   \<and> options (snd (createOperationRunner posixEnv sampleFactory testPhase gamma)) =
       sampleOptions
   \<and> phase_id buildPhase \<noteq> phase_id testPhase
   \<and> customParametersByPhase (snd (createOperationRunner posixEnv sampleFactory testPhase gamma))
       (phase_id buildPhase) = None"
proof -
  have e: "fst (createOperationRunner posixEnv sampleFactory testPhase gamma) =
     Inl (Error (missingScriptMessage gamma testPhase))"
    by (simp add: sample_defs createOperationRunner_def getCustomParameterValuesForPhase_def
        getScriptToRun_def scriptEntry_def Let_def)
  have v: "fst (getCustomParameterValuesForPhase sampleFactory testPhase) = [''--production'']"
    by (simp add: sample_defs getCustomParameterValuesForPhase_def)
  have o: "options sampleFactory = sampleOptions"
    by (simp add: sampleFactory_def new_ShellOperationRunnerFactory_def)
  have n: "phase_id buildPhase \<noteq> phase_id testPhase"
    by (simp add: buildPhase_def testPhase_def)
  have z: "customParametersByPhase sampleFactory (phase_id buildPhase) = None"
    by (simp add: sampleFactory_def new_ShellOperationRunnerFactory_def)
  note f = createOperationRunner_frame [of posixEnv sampleFactory testPhase gamma]
  from f v have 1: "customParametersByPhase
       (snd (createOperationRunner posixEnv sampleFactory testPhase gamma))
       (phase_id testPhase) = Some [''--production'']" by simp
  from f o have 2: "options (snd (createOperationRunner posixEnv sampleFactory testPhase gamma)) =
       sampleOptions" by simp
  from f n z have 3: "customParametersByPhase
       (snd (createOperationRunner posixEnv sampleFactory testPhase gamma))
       (phase_id buildPhase) = None" by simp
  from e 1 2 n 3 show ?thesis by blast
qed

subsection \<open>Names that do not start with the prefix\<close>

text \<open>
  Claim C10, as the spec states it, fails for the phase whose name is the empty
  string: it is not synthetic, its name does not start with the prefix \<^verbatim>\<open>_phase:\<close>, and
  the phase portion of its display name is the whole name (both are empty).
\<close>

theorem getDisplayName_full_name_counterexample:
  "\<not> isSynthetic unnamedPhase
   \<and> take (length (phaseNamePrefix posixEnv)) (name unnamedPhase) \<noteq> phaseNamePrefix posixEnv
   \<and> drop (length (phaseNamePrefix posixEnv)) (name unnamedPhase) = name unnamedPhase
   \<and> getDisplayName posixEnv unnamedPhase alpha =
       packageName alpha @ '' ('' @ name unnamedPhase @ '')''"
  by (simp add: getDisplayName_def unnamedPhase_def posixEnv_def alpha_def)

text \<open>
  Claim C10, amended. For every phase that is not synthetic, the display name holds the
  name of the phase without its first \<open>N\<close> characters, \<open>N\<close> the length of the prefix of
  phase names, whether or not the name starts with the prefix. When the name does not
  start with the prefix (also when it is shorter) and is not empty, what is shown is
  strictly shorter than the name, so it is never the full name.
\<close>

theorem getDisplayName_positional:
  assumes "\<not> isSynthetic ph"
  shows
    "getDisplayName e ph project =
       packageName project @ '' ('' @ drop (length (phaseNamePrefix e)) (name ph) @ '')''
     \<and> (take (length (phaseNamePrefix e)) (name ph) \<noteq> phaseNamePrefix e \<and> name ph \<noteq> [] \<longrightarrow>
          length (drop (length (phaseNamePrefix e)) (name ph)) < length (name ph)
          \<and> drop (length (phaseNamePrefix e)) (name ph) \<noteq> name ph
          \<and> getDisplayName e ph project \<noteq> packageName project @ '' ('' @ name ph @ '')'')"
proof -
  let ?n = "length (phaseNamePrefix e)"
  have shown: "getDisplayName e ph project =
       packageName project @ '' ('' @ drop ?n (name ph) @ '')''"
    using assms by (simp add: getDisplayName_def)
  have short: "length (drop ?n (name ph)) < length (name ph)"
    if "take ?n (name ph) \<noteq> phaseNamePrefix e" and "name ph \<noteq> []"
  proof -
    from that(1) have "phaseNamePrefix e \<noteq> []" by auto
    then have "0 < ?n" by simp
    moreover from that(2) have "0 < length (name ph)" by simp
    ultimately show ?thesis by simp
  qed
  have differs: "drop ?n (name ph) \<noteq> name ph"
    if "length (drop ?n (name ph)) < length (name ph)"
    using that by (metis less_irrefl)
  from shown short differs show ?thesis by auto
qed

theorem getDisplayName_positional_witness:
  "\<not> isSynthetic plainBuildPhase
   \<and> take (length (phaseNamePrefix posixEnv)) (name plainBuildPhase) \<noteq> phaseNamePrefix posixEnv
   \<and> name plainBuildPhase \<noteq> []
   \<and> getDisplayName posixEnv plainBuildPhase alpha = ''alpha ()''
   \<and> getDisplayName posixEnv plainBuildPhase alpha \<noteq> ''alpha (build)''"
proof -
  have h: "\<not> isSynthetic plainBuildPhase" by (simp add: plainBuildPhase_def)
  have t: "take (length (phaseNamePrefix posixEnv)) (name plainBuildPhase)
             \<noteq> phaseNamePrefix posixEnv"
    by (simp add: plainBuildPhase_def posixEnv_def)
  have n: "name plainBuildPhase \<noteq> []" by (simp add: plainBuildPhase_def)
  from getDisplayName_positional [OF h, of posixEnv alpha] t n
  have "getDisplayName posixEnv plainBuildPhase alpha =
          packageName alpha @ '' (''
            @ drop (length (phaseNamePrefix posixEnv)) (name plainBuildPhase) @ '')''
        \<and> getDisplayName posixEnv plainBuildPhase alpha \<noteq>
            packageName alpha @ '' ('' @ name plainBuildPhase @ '')''"
    by blast
  then have "getDisplayName posixEnv plainBuildPhase alpha = ''alpha ()''
        \<and> getDisplayName posixEnv plainBuildPhase alpha \<noteq> ''alpha (build)''"
    by (simp add: plainBuildPhase_def posixEnv_def alpha_def)
  with h t n show ?thesis by blast
qed


end
